theory Spec2Isabelle
  imports Main
begin

section \<open>Values, exceptions and the effect type\<close>

text \<open>
  The notebooks work on the values that Python's \<open>json\<close> module produces: \<open>None\<close>,
  booleans, numbers, strings, lists and dictionaries with string keys. A dictionary is
  kept as an association list in insertion order, which is also the order in which
  Python iterates over it; a key is looked up with \<open>map_of\<close>. A float is carried as the
  text of its literal: no code modelled here computes with one.
\<close>

datatype json =
    JNull
  | JBool bool
  | JInt int
  | JFloat string
  | JStr string
  | JList "json list"
  | JDict "(string \<times> json) list"

type_synonym bytes = string

text \<open>
  Exceptions are values. The first five are raised by the Python steps of the notebooks
  themselves (indexing, subscripting, attribute access, decoding); \<open>JSONDecodeError\<close>
  comes from \<open>json.loads\<close>; \<open>ClientException\<close> stands for whatever the service's client
  library raises, tagged with the name of its class.
\<close>

datatype exn =
    IndexError
  | KeyError string
  | TypeError
  | AttributeError
  | UnicodeDecodeError
  | JSONDecodeError
  | ClientException string

text \<open>\<open>obj[key]\<close> with a string key: only a dictionary can be subscripted that way.\<close>

fun subscript :: "json \<Rightarrow> string \<Rightarrow> exn + json" where
  "subscript (JDict d) k = (case map_of d k of None \<Rightarrow> Inl (KeyError k) | Some v \<Rightarrow> Inr v)"
| "subscript _ k = Inl TypeError"

text \<open>\<open>xs[i]\<close> on a Python list with a literal, non-negative index.\<close>

definition index :: "'a list \<Rightarrow> nat \<Rightarrow> exn + 'a" where
  "index xs i = (if i < length xs then Inr (xs ! i) else Inl IndexError)"

section \<open>The external client library\<close>

text \<open>
  \<open>boto3\<close>, the hosted endpoint behind it and the \<open>json\<close> module are not code of this
  repository. They are parameters of the model, collected in one record. The answer of
  \<open>invoke_endpoint\<close> may depend on everything sent so far, so the service may keep state.
\<close>

record boto_client =
  service_name :: string
  client_region :: string

record invoke_request =
  EndpointName :: string
  Body :: bytes
  ContentType :: string
  InferenceComponentName :: string

text \<open>
  The body of a response is a stream; \<open>read()\<close> returns its bytes or raises. A response
  is the dictionary the client returns.
\<close>

datatype streaming_body = StreamingBody "exn + bytes"

type_synonym response = "(string \<times> streaming_body) list"

record env =
  boto3_client :: "string \<Rightarrow> string \<Rightarrow> exn + boto_client"
  invoke_endpoint ::
    "(boto_client \<times> invoke_request) list \<Rightarrow> boto_client \<Rightarrow> invoke_request \<Rightarrow> exn + response"
  json_loads :: "bytes \<Rightarrow> exn + json"
  json_dumps :: "json \<Rightarrow> bytes"

section \<open>The two-stage orchestrator\<close>

text \<open>
  \<^verbatim>\<open>
  class PythonCustomInferenceEntryPoint(CustomOrchestrator):
      def __init__(self, region_name, endpoint_name, component_names):
          self.region_name = region_name
          self.endpoint_name = endpoint_name
          self.component_names = component_names
  \<close>
\<close>

record orchestrator =
  region_name :: string
  endpoint_name :: string
  component_names :: "string list"

definition init :: "string \<Rightarrow> string \<Rightarrow> string list \<Rightarrow> orchestrator" where
  "init region endpoint components =
     \<lparr>region_name = region, endpoint_name = endpoint, component_names = components\<rparr>"

text \<open>
  A method runs on a state: the attributes of \<open>self\<close> and the log of the remote
  invocations issued so far, the last one at the end. It returns a value or an exception,
  and the state it leaves.
\<close>

record state =
  self :: orchestrator
  sent :: "(boto_client \<times> invoke_request) list"

type_synonym 'a comp = "state \<Rightarrow> (exn + 'a) \<times> state"

definition lift :: "exn + 'a \<Rightarrow> 'a comp" where
  "lift r = (\<lambda>s. (r, s))"

text \<open>Sequencing: an exception of the first step ends the method; nothing catches it.\<close>

definition andthen :: "'a comp \<Rightarrow> ('a \<Rightarrow> 'b comp) \<Rightarrow> 'b comp" where
  "andthen m f = (\<lambda>s. case m s of (Inl e, s') \<Rightarrow> (Inl e, s') | (Inr x, s') \<Rightarrow> f x s')"

definition get_self :: "orchestrator comp" where
  "get_self = (\<lambda>s. (Inr (self s), s))"

text \<open>
  \<^verbatim>\<open>
      @property
      def client(self):
          # Create a new client each time it's accessed
          return boto3.client("sagemaker-runtime", region_name=self.region_name)
  \<close>
\<close>

definition client :: "env \<Rightarrow> boto_client comp" where
  "client E = andthen get_self (\<lambda>me. lift (boto3_client E ''sagemaker-runtime'' (region_name me)))"

text \<open>One remote invocation: it is logged whether it returns or raises.\<close>

definition call_invoke_endpoint :: "env \<Rightarrow> boto_client \<Rightarrow> invoke_request \<Rightarrow> response comp" where
  "call_invoke_endpoint E c req =
     (\<lambda>s. (invoke_endpoint E (sent s) c req, s\<lparr>sent := sent s @ [(c, req)]\<rparr>))"

text \<open>\<open>response.get('Body').read()\<close>: \<open>get\<close> gives \<open>None\<close> for a missing key.\<close>

definition read_body :: "response \<Rightarrow> exn + bytes" where
  "read_body r = (case map_of r ''Body'' of None \<Rightarrow> Inl AttributeError
                  | Some (StreamingBody outcome) \<Rightarrow> outcome)"

text \<open>
  \<^verbatim>\<open>
      def _invoke_workflow(self, data):
          llama_response = self.client.invoke_endpoint(
              EndpointName=self.endpoint_name, Body=data,
              ContentType="application/json",
              InferenceComponentName=self.component_names[0])
          llama_generated_text = json.loads(llama_response.get('Body').read())['generated_text']
          parameters = {"max_new_tokens": 50}
          payload = {"inputs": llama_generated_text, "parameters": parameters}
          mistral_response = self.client.invoke_endpoint(
              EndpointName=self.endpoint_name, Body=json.dumps(payload),
              ContentType="application/json",
              InferenceComponentName=self.component_names[1])
          return json.loads(mistral_response.get('Body').read())['generated_text']
  \<close>
  Python evaluates the callee (\<open>self.client\<close>) first, then the arguments from left to
  right, then makes the call.
\<close>

definition llama_request :: "orchestrator \<Rightarrow> bytes \<Rightarrow> string \<Rightarrow> invoke_request" where
  "llama_request me data component =
     \<lparr>EndpointName = endpoint_name me, Body = data,
      ContentType = ''application/json'', InferenceComponentName = component\<rparr>"

definition mistral_payload :: "json \<Rightarrow> json" where
  "mistral_payload llama_generated_text =
     (let parameters = JDict [(''max_new_tokens'', JInt 50)]
      in JDict [(''inputs'', llama_generated_text), (''parameters'', parameters)])"

definition mistral_request :: "env \<Rightarrow> orchestrator \<Rightarrow> json \<Rightarrow> string \<Rightarrow> invoke_request" where
  "mistral_request E me llama_generated_text component =
     \<lparr>EndpointName = endpoint_name me, Body = json_dumps E (mistral_payload llama_generated_text),
      ContentType = ''application/json'', InferenceComponentName = component\<rparr>"

definition generated_text :: "env \<Rightarrow> response \<Rightarrow> exn + json" where
  "generated_text E r =
     (case read_body r of Inl e \<Rightarrow> Inl e
      | Inr raw \<Rightarrow> (case json_loads E raw of Inl e \<Rightarrow> Inl e
                    | Inr doc \<Rightarrow> subscript doc ''generated_text''))"

definition invoke_workflow :: "env \<Rightarrow> bytes \<Rightarrow> json comp" where
  "invoke_workflow E data =
     andthen (client E) (\<lambda>c1.
     andthen get_self (\<lambda>me.
     andthen (lift (index (component_names me) 0)) (\<lambda>first_component.
     andthen (call_invoke_endpoint E c1 (llama_request me data first_component)) (\<lambda>llama_response.
     andthen (lift (generated_text E llama_response)) (\<lambda>llama_generated_text.
     andthen (client E) (\<lambda>c2.
     andthen get_self (\<lambda>me2.
     andthen (lift (index (component_names me2) 1)) (\<lambda>second_component.
     andthen (call_invoke_endpoint E c2
                (mistral_request E me2 llama_generated_text second_component)) (\<lambda>mistral_response.
     lift (generated_text E mistral_response))))))))))"

text \<open>
  \<^verbatim>\<open>
      def handle(self, data, context=None):
          return self._invoke_workflow(data)
  \<close>
\<close>

definition handle :: "env \<Rightarrow> bytes \<Rightarrow> 'ctx option \<Rightarrow> json comp" where
  "handle E data context = invoke_workflow E data"

section \<open>The interface of the orchestrator\<close>

text \<open>
  \<^verbatim>\<open>
  from sagemaker.serve.spec.inference_base import CustomOrchestrator

  class PythonCustomInferenceEntryPoint(CustomOrchestrator):
      def __init__(self, region_name, endpoint_name, component_names): ...
      @property
      def client(self): ...
      def _invoke_workflow(self, data): ...
      def handle(self, data, context=None): ...
  \<close>
  The notebook declares one class and imports its base. A class is its name, its bases
  and the members its body declares, each with its kind.
\<close>

datatype member_kind = AbstractMethod | Method | Property

record class_decl =
  cname :: string
  bases :: "string list"
  members :: "(string \<times> member_kind) list"

text \<open>
  Modelled from the spec: the class \<open>CustomOrchestrator\<close> itself. The notebook imports it
  from the SDK, whose code is not part of the source. The spec describes it as a single
  abstract base class with one required method, and a markdown cell of the notebook
  quotes it so:
  \<^verbatim>\<open>
  class CustomOrchestrator(ABC):
      @abstractmethod
      def handle(self, data, context=None):
          """abstract class for defining an entrypoint for the model server"""
          return NotImplemented
  \<close>
  The class of the SDK has a constructor and a \<open>client\<close> property besides; both are
  concrete, and the subclass of the notebook overrides both.
\<close>

definition CustomOrchestrator :: class_decl where
  "CustomOrchestrator =
     \<lparr>cname = ''CustomOrchestrator'', bases = [''ABC''],
      members = [(''__init__'', Method), (''client'', Property),
                 (''handle'', AbstractMethod)]\<rparr>"

definition PythonCustomInferenceEntryPoint :: class_decl where
  "PythonCustomInferenceEntryPoint =
     \<lparr>cname = ''PythonCustomInferenceEntryPoint'', bases = [''CustomOrchestrator''],
      members = [(''__init__'', Method), (''client'', Property),
                 (''_invoke_workflow'', Method), (''handle'', Method)]\<rparr>"

definition source_classes :: "class_decl list" where
  "source_classes = [CustomOrchestrator, PythonCustomInferenceEntryPoint]"

definition find_class :: "class_decl list \<Rightarrow> string \<Rightarrow> class_decl option" where
  "find_class table name = find (\<lambda>d. cname d = name) table"

text \<open>
  Attribute lookup on a class: the class's own body first, then its bases from left to
  right. A base that the table does not declare (\<open>ABC\<close>) contributes no member. The
  first argument bounds the depth of the search; the length of the table is enough.
\<close>

fun resolve :: "nat \<Rightarrow> class_decl list \<Rightarrow> string \<Rightarrow> string \<Rightarrow> (string \<times> member_kind) option"
  and resolve_bases :: "nat \<Rightarrow> class_decl list \<Rightarrow> string list \<Rightarrow> string \<Rightarrow> (string \<times> member_kind) option"
  where
  "resolve 0 table cls name = None"
| "resolve (Suc n) table cls name =
     (case find_class table cls of None \<Rightarrow> None
      | Some d \<Rightarrow> (case map_of (members d) name of
                    Some k \<Rightarrow> Some (cls, k)
                  | None \<Rightarrow> resolve_bases n table (bases d) name))"
| "resolve_bases n table [] name = None"
| "resolve_bases n table (b # bs) name =
     (case resolve n table b name of Some r \<Rightarrow> Some r
      | None \<Rightarrow> resolve_bases n table bs name)"

definition lookup_member :: "string \<Rightarrow> string \<Rightarrow> (string \<times> member_kind) option" where
  "lookup_member cls name = resolve (length source_classes) source_classes cls name"

text \<open>The names a class declares abstract, and those of them an instance would still lack.\<close>

definition declared_abstract :: "class_decl \<Rightarrow> string list" where
  "declared_abstract d = map fst (filter (\<lambda>m. snd m = AbstractMethod) (members d))"

definition required_methods :: "string \<Rightarrow> string list" where
  "required_methods cls =
     filter (\<lambda>name. case lookup_member cls name of
                       Some (owner, AbstractMethod) \<Rightarrow> True
                     | _ \<Rightarrow> False)
       (remdups (concat (map declared_abstract source_classes)))"

text \<open>
  The bodies of \<open>handle\<close>, by the class that declares them. What a body hands back is a
  JSON value or, from the abstract method, \<open>NotImplemented\<close>.
\<close>

datatype handled = Returned json | NotImplemented

type_synonym 'ctx handler = "env \<Rightarrow> bytes \<Rightarrow> 'ctx option \<Rightarrow> state \<Rightarrow> (exn + handled) \<times> state"

text \<open>
  Modelled from the spec: the body of the abstract \<open>handle\<close> of \<open>CustomOrchestrator\<close>,
  which is not part of the source; as quoted above, it returns \<open>NotImplemented\<close>.
\<close>

definition CustomOrchestrator_handle :: "'ctx handler" where
  "CustomOrchestrator_handle E data context s = (Inr NotImplemented, s)"

text \<open>The body of the subclass is \<open>handle\<close> above.\<close>

definition PythonCustomInferenceEntryPoint_handle :: "'ctx handler" where
  "PythonCustomInferenceEntryPoint_handle E data context s =
     (case handle E data context s of
        (Inl e, s') \<Rightarrow> (Inl e, s')
      | (Inr v, s') \<Rightarrow> (Inr (Returned v), s'))"

definition handle_bodies :: "(string \<times> 'ctx handler) list" where
  "handle_bodies =
     [(''CustomOrchestrator'', CustomOrchestrator_handle),
      (''PythonCustomInferenceEntryPoint'', PythonCustomInferenceEntryPoint_handle)]"

text \<open>
  A call of \<open>handle\<close> through the interface on an instance of class \<open>cls\<close>. Python refuses
  to instantiate a class that still lacks an abstract method, so there is no call then.
  Otherwise the lookup names the class whose body runs.
\<close>

definition interface_handle ::
  "string \<Rightarrow> env \<Rightarrow> bytes \<Rightarrow> 'ctx option \<Rightarrow> state \<Rightarrow> ((exn + handled) \<times> state) option" where
  "interface_handle cls E data context s =
     (if required_methods cls \<noteq> [] then None
      else case lookup_member cls ''handle'' of
             None \<Rightarrow> None
           | Some (owner, kind) \<Rightarrow>
               (case map_of handle_bodies owner of
                  None \<Rightarrow> None
                | Some body \<Rightarrow> Some (body E data context s)))"

section \<open>Image URLs of a chat payload\<close>

text \<open>
  \<open>for x in v\<close>: a list gives its elements, a dictionary its keys, a string its
  characters; nothing else can be iterated.
\<close>

fun iterate :: "json \<Rightarrow> exn + json list" where
  "iterate (JList xs) = Inr xs"
| "iterate (JDict d) = Inr (map (\<lambda>kv. JStr (fst kv)) d)"
| "iterate (JStr s) = Inr (map (\<lambda>c. JStr [c]) s)"
| "iterate _ = Inl TypeError"

text \<open>
  \<^verbatim>\<open>
  def get_image_urls(payload):
      image_urls = []
      payload = json.loads(payload)
      for msg in payload["messages"]:
          if type(msg["content"]) == list:
              for ms in msg["content"]:
                  typ = ms["type"]
                  if typ == "image_url":
                      image_url = ms["image_url"]["url"]
                      image_urls.append(image_url)
      return image_urls
  \<close>
  The inner and the outer loop, each carrying \<open>image_urls\<close>; an exception ends both.
\<close>

fun content_loop :: "json list \<Rightarrow> json list \<Rightarrow> exn + json list" where
  "content_loop [] image_urls = Inr image_urls"
| "content_loop (ms # rest) image_urls =
     (case subscript ms ''type'' of Inl e \<Rightarrow> Inl e
      | Inr typ \<Rightarrow>
          if typ = JStr ''image_url'' then
            (case subscript ms ''image_url'' of Inl e \<Rightarrow> Inl e
             | Inr holder \<Rightarrow> (case subscript holder ''url'' of Inl e \<Rightarrow> Inl e
                              | Inr image_url \<Rightarrow> content_loop rest (image_urls @ [image_url])))
          else content_loop rest image_urls)"

fun messages_loop :: "json list \<Rightarrow> json list \<Rightarrow> exn + json list" where
  "messages_loop [] image_urls = Inr image_urls"
| "messages_loop (msg # rest) image_urls =
     (case subscript msg ''content'' of Inl e \<Rightarrow> Inl e
      | Inr content \<Rightarrow>
          (case content of
             JList entries \<Rightarrow> (case content_loop entries image_urls of Inl e \<Rightarrow> Inl e
                               | Inr image_urls' \<Rightarrow> messages_loop rest image_urls')
           | _ \<Rightarrow> messages_loop rest image_urls))"

definition get_image_urls :: "env \<Rightarrow> string \<Rightarrow> exn + json list" where
  "get_image_urls E payload =
     (case json_loads E payload of Inl e \<Rightarrow> Inl e
      | Inr doc \<Rightarrow> (case subscript doc ''messages'' of Inl e \<Rightarrow> Inl e
                    | Inr messages \<Rightarrow> (case iterate messages of Inl e \<Rightarrow> Inl e
                                        | Inr msgs \<Rightarrow> messages_loop msgs [])))"

text \<open>
  The description of the result in words, written without reference to the loops: a
  field of a value is \<open>Some\<close> only on a dictionary that has the key.
\<close>

definition field :: "json \<Rightarrow> string \<Rightarrow> json option" where
  "field v k = (case v of JDict d \<Rightarrow> map_of d k | _ \<Rightarrow> None)"

definition is_image_entry :: "json \<Rightarrow> bool" where
  "is_image_entry ms = (field ms ''type'' = Some (JStr ''image_url''))"

definition entry_url :: "json \<Rightarrow> json list" where
  "entry_url ms = (case field ms ''image_url'' of None \<Rightarrow> []
                   | Some holder \<Rightarrow> (case field holder ''url'' of None \<Rightarrow> [] | Some u \<Rightarrow> [u]))"

definition message_urls :: "json \<Rightarrow> json list" where
  "message_urls msg = (case field msg ''content'' of
                         Some (JList entries) \<Rightarrow> concat (map entry_url (filter is_image_entry entries))
                       | _ \<Rightarrow> [])"

definition described_image_urls :: "json list \<Rightarrow> json list" where
  "described_image_urls msgs = concat (map message_urls msgs)"

text \<open>
  The payloads on which every subscript of the function finds its key: each message has
  \<open>content\<close>; each entry of a list content has \<open>type\<close>, and with the type \<open>image_url\<close> also
  \<open>image_url\<close> with a \<open>url\<close> inside.
\<close>

definition entry_ok :: "json \<Rightarrow> bool" where
  "entry_ok ms = (case field ms ''type'' of None \<Rightarrow> False
                  | Some typ \<Rightarrow> if typ = JStr ''image_url'' then entry_url ms \<noteq> [] else True)"

definition message_ok :: "json \<Rightarrow> bool" where
  "message_ok msg = (case field msg ''content'' of None \<Rightarrow> False
                     | Some (JList entries) \<Rightarrow> list_all entry_ok entries
                     | Some _ \<Rightarrow> True)"

text \<open>
  The messages of a parsed payload, when it has the key and the value can be iterated;
  and the two kinds of exception a failed subscript or iteration raises.
\<close>

definition listed_messages :: "json \<Rightarrow> json list option" where
  "listed_messages doc =
     (case field doc ''messages'' of None \<Rightarrow> None
      | Some listed \<Rightarrow> (case iterate listed of Inl e \<Rightarrow> None | Inr msgs \<Rightarrow> Some msgs))"

fun is_lookup_error :: "exn \<Rightarrow> bool" where
  "is_lookup_error (KeyError k) = True"
| "is_lookup_error TypeError = True"
| "is_lookup_error _ = False"

section \<open>Cleaning up the schedules\<close>

text \<open>
  \<^verbatim>\<open>
  schedules = [delete_IC_scale_out_schedule, delete_IC_scale_in_schedule,
               update_IC_scale_out_schedule, update_IC_scale_in_schedule]
  for schedule in schedules:
      try:
          scheduler.delete_schedule(Name=schedule)
          print(f"Deleted schedule [b]{schedule} ...")
      except scheduler.exceptions.ResourceNotFoundException:
          print(f"Schedule [b]{schedule}[/b] not found.")
  \<close>
  The scheduler client is a parameter: given the names requested so far and a name,
  \<open>delete_schedule\<close> returns (\<open>None\<close>) or raises. The two messages are the two printed
  lines; the run keeps the requests it made and the lines it printed.
\<close>

type_synonym scheduler = "string list \<Rightarrow> string \<Rightarrow> exn option"

datatype message = Deleted_schedule string | Schedule_not_found string

record cleanup =
  requested :: "string list"
  notices :: "message list"

definition ResourceNotFoundException :: exn where
  "ResourceNotFoundException = ClientException ''ResourceNotFoundException''"

fun delete_schedules :: "scheduler \<Rightarrow> string list \<Rightarrow> cleanup \<Rightarrow> exn option \<times> cleanup" where
  "delete_schedules delete_schedule [] st = (None, st)"
| "delete_schedules delete_schedule (schedule # rest) st =
     (let st1 = st\<lparr>requested := requested st @ [schedule]\<rparr>
      in case delete_schedule (requested st) schedule of
           None \<Rightarrow> delete_schedules delete_schedule rest
                     (st1\<lparr>notices := notices st1 @ [Deleted_schedule schedule]\<rparr>)
         | Some e \<Rightarrow>
             if e = ResourceNotFoundException
             then delete_schedules delete_schedule rest
                    (st1\<lparr>notices := notices st1 @ [Schedule_not_found schedule]\<rparr>)
             else (Some e, st1))"

definition delete_IC_scale_out_schedule :: string where
  "delete_IC_scale_out_schedule = ''scale-out-schedule-1''"

definition delete_IC_scale_in_schedule :: string where
  "delete_IC_scale_in_schedule = ''scale-to-zero-schedule-1''"

definition update_IC_scale_out_schedule :: string where
  "update_IC_scale_out_schedule = ''scale-out-schedule''"

definition update_IC_scale_in_schedule :: string where
  "update_IC_scale_in_schedule = ''scale-to-zero-schedule''"

definition schedules :: "string list" where
  "schedules = [delete_IC_scale_out_schedule, delete_IC_scale_in_schedule,
                update_IC_scale_out_schedule, update_IC_scale_in_schedule]"

section \<open>Reading a streamed response\<close>

text \<open>
  \<^verbatim>\<open>
  for event in response['Body']:
      try:
          line = event['PayloadPart']['Bytes'].decode("utf-8")
          chunk = json.loads(line)
          if 'choices' in chunk and len(chunk['choices']) > 0:
              content = chunk['choices'][0].get('delta', {}).get('content', '')
              finish_reason = chunk['choices'][0].get('delta', {}).get('finish_reason', '')
              print(content, end='', flush=True)
      except json.JSONDecodeError:
          print("Error decoding JSON:", line)
  \<close>
  The event stream belongs to the client: each step of the iteration yields an event or
  raises. An event is a dictionary of dictionaries of bytes. Decoding UTF-8 is Python's
  and is a parameter. The operations the body applies to the decoded chunk follow.
\<close>

type_synonym event = "(string \<times> (string \<times> bytes) list) list"

definition event_bytes :: "event \<Rightarrow> exn + bytes" where
  "event_bytes ev =
     (case map_of ev ''PayloadPart'' of None \<Rightarrow> Inl (KeyError ''PayloadPart'')
      | Some part \<Rightarrow> (case map_of part ''Bytes'' of None \<Rightarrow> Inl (KeyError ''Bytes'')
                      | Some b \<Rightarrow> Inr b))"

fun starts_with :: "string \<Rightarrow> string \<Rightarrow> bool" where
  "starts_with s [] = True"
| "starts_with [] (p # ps) = False"
| "starts_with (c # s) (p # ps) = (c = p \<and> starts_with s ps)"

fun contains :: "string \<Rightarrow> string \<Rightarrow> bool" where
  "contains [] p = (p = [])"
| "contains (c # s) p = (starts_with (c # s) p \<or> contains s p)"

text \<open>\<open>k in v\<close> for a string \<open>k\<close>: a key of a dictionary, an element of a list, a substring.\<close>

fun py_in :: "string \<Rightarrow> json \<Rightarrow> exn + bool" where
  "py_in k (JDict d) = Inr (k \<in> set (map fst d))"
| "py_in k (JList xs) = Inr (JStr k \<in> set xs)"
| "py_in k (JStr s) = Inr (contains s k)"
| "py_in k _ = Inl TypeError"

fun py_len :: "json \<Rightarrow> exn + nat" where
  "py_len (JDict d) = Inr (length d)"
| "py_len (JList xs) = Inr (length xs)"
| "py_len (JStr s) = Inr (length s)"
| "py_len _ = Inl TypeError"

text \<open>\<open>v[0]\<close>: a dictionary parsed from JSON has string keys only, so \<open>0\<close> is not one.\<close>

fun first_item :: "json \<Rightarrow> exn + json" where
  "first_item (JList xs) = index xs 0"
| "first_item (JStr s) = index (map (\<lambda>c. JStr [c]) s) 0"
| "first_item (JDict d) = Inl (KeyError ''0'')"
| "first_item _ = Inl TypeError"

text \<open>\<open>v.get(k, dflt)\<close>: only a dictionary has the method.\<close>

fun py_get :: "json \<Rightarrow> string \<Rightarrow> json \<Rightarrow> exn + json" where
  "py_get (JDict d) k dflt = Inr (case map_of d k of None \<Rightarrow> dflt | Some v \<Rightarrow> v)"
| "py_get _ k dflt = Inl AttributeError"

definition delta_field :: "json \<Rightarrow> string \<Rightarrow> exn + json" where
  "delta_field chunk k =
     (case subscript chunk ''choices'' of Inl e \<Rightarrow> Inl e
      | Inr choices \<Rightarrow> (case first_item choices of Inl e \<Rightarrow> Inl e
         | Inr choice \<Rightarrow> (case py_get choice ''delta'' (JDict []) of Inl e \<Rightarrow> Inl e
            | Inr delta \<Rightarrow> py_get delta k (JStr []))))"

text \<open>What the body prints for a chunk: the content, or nothing when the test fails.\<close>

definition chunk_output :: "json \<Rightarrow> exn + json option" where
  "chunk_output chunk =
     (case py_in ''choices'' chunk of Inl e \<Rightarrow> Inl e
      | Inr False \<Rightarrow> Inr None
      | Inr True \<Rightarrow>
          (case subscript chunk ''choices'' of Inl e \<Rightarrow> Inl e
           | Inr choices \<Rightarrow> (case py_len choices of Inl e \<Rightarrow> Inl e
              | Inr n \<Rightarrow> if n > 0
                  then (case delta_field chunk ''content'' of Inl e \<Rightarrow> Inl e
                        | Inr content \<Rightarrow> (case delta_field chunk ''finish_reason'' of Inl e \<Rightarrow> Inl e
                                          | Inr finish_reason \<Rightarrow> Inr (Some content)))
                  else Inr None)))"

datatype stream_output = Content json | Error_decoding_JSON string

text \<open>
  The loop keeps the lines printed and the variable \<open>line\<close>, which is unbound (\<open>None\<close>)
  until the first event is decoded; the handler reads it. The \<open>except\<close> clause names
  \<open>JSONDecodeError\<close> alone, so any other exception of the body leaves the loop.
\<close>

datatype stream_exn = Raised exn | NameError

record stream_state =
  line :: "string option"
  printed :: "stream_output list"

fun stream_loop ::
  "(bytes \<Rightarrow> exn + string) \<Rightarrow> env \<Rightarrow> (exn + event) list \<Rightarrow> stream_state
     \<Rightarrow> stream_exn option \<times> stream_state" where
  "stream_loop decode E [] st = (None, st)"
| "stream_loop decode E (Inl e # rest) st = (Some (Raised e), st)"
| "stream_loop decode E (Inr ev # rest) st =
     (let body =
        (case event_bytes ev of Inl e \<Rightarrow> (Inl e, st)
         | Inr b \<Rightarrow> (case decode b of Inl e \<Rightarrow> (Inl e, st)
            | Inr l \<Rightarrow>
                (let st1 = st\<lparr>line := Some l\<rparr>
                 in case json_loads E l of Inl e \<Rightarrow> (Inl e, st1)
                    | Inr chunk \<Rightarrow> (case chunk_output chunk of Inl e \<Rightarrow> (Inl e, st1)
                       | Inr None \<Rightarrow> (Inr (), st1)
                       | Inr (Some content) \<Rightarrow>
                           (Inr (), st1\<lparr>printed := printed st1 @ [Content content]\<rparr>)))))
      in case body of
           (Inr u, st2) \<Rightarrow> stream_loop decode E rest st2
         | (Inl e, st2) \<Rightarrow>
             if e = JSONDecodeError
             then (case line st2 of None \<Rightarrow> (Some NameError, st2)
                   | Some l \<Rightarrow> stream_loop decode E rest
                                (st2\<lparr>printed := printed st2 @ [Error_decoding_JSON l]\<rparr>))
             else (Some (Raised e), st2))"

section \<open>Preparing and deploying the model\<close>

text \<open>
  \<^verbatim>\<open>
  final_model = model_builder.build()
  if not final_model._is_sharded_model:
      final_model._is_sharded_model = True
  if final_model._enable_network_isolation:
      final_model._enable_network_isolation = False
  final_model.image_uri = "763104351884.dkr.ecr.us-west-2.amazonaws.com/djl-inference:0.31.0-lmi13.0.0-cu124"
  resources_required = ResourceRequirements(
      requests={"memory": 104096, "num_accelerators": 4, "copies": 1})
  final_model.deploy(instance_type="ml.g5.12xlarge", accept_eula=True,
                     endpoint_name=endpoint_name, resources=resources_required)
  \<close>
  The model object comes from the SDK; the three attributes the cells touch are fields,
  every other attribute is the extension of the record.
\<close>

record model =
  is_sharded_model :: bool
  enable_network_isolation :: bool
  image_uri :: string

definition make_sure_sharded :: "'a model_scheme \<Rightarrow> 'a model_scheme" where
  "make_sure_sharded final_model =
     (if \<not> is_sharded_model final_model then final_model\<lparr>is_sharded_model := True\<rparr>
      else final_model)"

definition allow_network :: "'a model_scheme \<Rightarrow> 'a model_scheme" where
  "allow_network final_model =
     (if enable_network_isolation final_model
      then final_model\<lparr>enable_network_isolation := False\<rparr>
      else final_model)"

definition lmi_image :: string where
  "lmi_image = ''763104351884.dkr.ecr.us-west-2.amazonaws.com/djl-inference:0.31.0-lmi13.0.0-cu124''"

definition select_image :: "'a model_scheme \<Rightarrow> 'a model_scheme" where
  "select_image final_model = final_model\<lparr>image_uri := lmi_image\<rparr>"

record resource_requirements =
  requests :: "(string \<times> int) list"

definition resources_required :: resource_requirements where
  "resources_required =
     \<lparr>requests = [(''memory'', 104096), (''num_accelerators'', 4), (''copies'', 1)]\<rparr>"

record 'a deploy_call =
  deployed :: "'a model_scheme"
  instance_type :: string
  accept_eula :: bool
  to_endpoint :: string
  resources :: resource_requirements

text \<open>The cells in notebook order, from the model that \<open>build()\<close> returned to the call of \<open>deploy\<close>.\<close>

definition deploy_final_model :: "'a model_scheme \<Rightarrow> string \<Rightarrow> 'a deploy_call" where
  "deploy_final_model built endpoint =
     (let final_model = select_image (allow_network (make_sure_sharded built))
      in \<lparr>deployed = final_model, instance_type = ''ml.g5.12xlarge'', accept_eula = True,
          to_endpoint = endpoint, resources = resources_required\<rparr>)"

section \<open>The delete and recreate schedules\<close>

text \<open>
  \<^verbatim>\<open>
  scale_in_target = {
      "RoleArn": role,
      "Arn": "arn:aws:scheduler:::aws-sdk:sagemaker:deleteInferenceComponent",
      "Input": json.dumps({"InferenceComponentName": inference_component_name})}

  input_config = {
    "EndpointName": endpoint_name,
    "InferenceComponentName": inference_component_name,
    "RuntimeConfig": {"CopyCount": 2},
    "Specification": {
      "ModelName": model_name,
      "StartupParameters": {
          "ModelDataDownloadTimeoutInSeconds": 3600,
          "ContainerStartupHealthCheckTimeoutInSeconds": 3600},
      "ComputeResourceRequirements": {
        "MinMemoryRequiredInMb": 1024,
        "NumberOfAcceleratorDevicesRequired": 1}},
    "VariantName": variant_name}
  scale_out_target = {
      "RoleArn": role,
      "Arn": "arn:aws:scheduler:::aws-sdk:sagemaker:createInferenceComponent",
      "Input": json.dumps(input_config)}
  \<close>
\<close>

record target =
  RoleArn :: string
  Arn :: string
  Input :: bytes

definition scale_in_target :: "env \<Rightarrow> string \<Rightarrow> string \<Rightarrow> target" where
  "scale_in_target E role component =
     \<lparr>RoleArn = role,
      Arn = ''arn:aws:scheduler:::aws-sdk:sagemaker:deleteInferenceComponent'',
      Input = json_dumps E (JDict [(''InferenceComponentName'', JStr component)])\<rparr>"

definition input_config :: "string \<Rightarrow> string \<Rightarrow> string \<Rightarrow> string \<Rightarrow> json" where
  "input_config endpoint component model_name variant =
     JDict [(''EndpointName'', JStr endpoint),
            (''InferenceComponentName'', JStr component),
            (''RuntimeConfig'', JDict [(''CopyCount'', JInt 2)]),
            (''Specification'', JDict
               [(''ModelName'', JStr model_name),
                (''StartupParameters'', JDict
                   [(''ModelDataDownloadTimeoutInSeconds'', JInt 3600),
                    (''ContainerStartupHealthCheckTimeoutInSeconds'', JInt 3600)]),
                (''ComputeResourceRequirements'', JDict
                   [(''MinMemoryRequiredInMb'', JInt 1024),
                    (''NumberOfAcceleratorDevicesRequired'', JInt 1)])]),
            (''VariantName'', JStr variant)]"

definition scale_out_target :: "env \<Rightarrow> string \<Rightarrow> string \<Rightarrow> string \<Rightarrow> string \<Rightarrow> string \<Rightarrow> target" where
  "scale_out_target E role endpoint component model_name variant =
     \<lparr>RoleArn = role,
      Arn = ''arn:aws:scheduler:::aws-sdk:sagemaker:createInferenceComponent'',
      Input = json_dumps E (input_config endpoint component model_name variant)\<rparr>"

text \<open>
  The capacity of an inference component: copies, memory in megabytes, accelerators.
  The SDK sends the \<open>copies\<close>, \<open>memory\<close> and \<open>num_accelerators\<close> of a resource request
  as the \<open>CopyCount\<close>, \<open>MinMemoryRequiredInMb\<close> and
  \<open>NumberOfAcceleratorDevicesRequired\<close> of the component it creates; the same three
  fields are read from the input of the scheduled call.
\<close>

record capacity =
  copies :: int
  memory_mb :: int
  accelerators :: int

fun path :: "json \<Rightarrow> string list \<Rightarrow> json option" where
  "path v [] = Some v"
| "path v (k # ks) = (case field v k of None \<Rightarrow> None | Some w \<Rightarrow> path w ks)"

definition int_at :: "json \<Rightarrow> string list \<Rightarrow> int option" where
  "int_at v ks = (case path v ks of Some (JInt n) \<Rightarrow> Some n | _ \<Rightarrow> None)"

definition requested_capacity :: "resource_requirements \<Rightarrow> capacity option" where
  "requested_capacity r =
     (case (map_of (requests r) ''copies'', map_of (requests r) ''memory'',
            map_of (requests r) ''num_accelerators'') of
        (Some c, Some m, Some a) \<Rightarrow> Some \<lparr>copies = c, memory_mb = m, accelerators = a\<rparr>
      | _ \<Rightarrow> None)"

definition recreated_capacity :: "json \<Rightarrow> capacity option" where
  "recreated_capacity config =
     (case (int_at config [''RuntimeConfig'', ''CopyCount''],
            int_at config [''Specification'', ''ComputeResourceRequirements'', ''MinMemoryRequiredInMb''],
            int_at config [''Specification'', ''ComputeResourceRequirements'',
                           ''NumberOfAcceleratorDevicesRequired'']) of
        (Some c, Some m, Some a) \<Rightarrow> Some \<lparr>copies = c, memory_mb = m, accelerators = a\<rparr>
      | _ \<Rightarrow> None)"

section \<open>Environments for concrete runs\<close>

text \<open>
  A concrete run needs a concrete client library. The \<open>json\<close> module is given by two
  finite tables, of the documents the run parses and of the values it writes; the
  service answers its \<open>n\<close>-th invocation with the \<open>n\<close>-th outcome of a script; creating a
  client always succeeds.
\<close>

definition table_loads :: "(bytes \<times> json) list \<Rightarrow> bytes \<Rightarrow> exn + json" where
  "table_loads t b = (case map_of t b of None \<Rightarrow> Inl JSONDecodeError | Some v \<Rightarrow> Inr v)"

definition table_dumps :: "(json \<times> bytes) list \<Rightarrow> json \<Rightarrow> bytes" where
  "table_dumps t v = (case map_of t v of None \<Rightarrow> [] | Some b \<Rightarrow> b)"

definition scripted :: "(exn + response) list \<Rightarrow> (boto_client \<times> invoke_request) list
    \<Rightarrow> boto_client \<Rightarrow> invoke_request \<Rightarrow> exn + response" where
  "scripted script log c req =
     (if length log < length script then script ! length log
      else Inl (ClientException ''ServiceUnavailable''))"

definition scripted_env ::
  "(bytes \<times> json) list \<Rightarrow> (json \<times> bytes) list \<Rightarrow> (exn + response) list \<Rightarrow> env" where
  "scripted_env parsed written script =
     \<lparr>boto3_client = (\<lambda>service region. Inr \<lparr>service_name = service, client_region = region\<rparr>),
      invoke_endpoint = scripted script,
      json_loads = table_loads parsed,
      json_dumps = table_dumps written\<rparr>"

definition body_of :: "bytes \<Rightarrow> response" where
  "body_of b = [(''Body'', StreamingBody (Inr b))]"

definition example_parsed :: "(bytes \<times> json) list" where
  "example_parsed =
     [(''llama-body'', JDict [(''generated_text'', JStr ''Paris'')]),
      (''mistral-body'', JDict [(''generated_text'', JStr ''is the capital of France'')]),
      (''no-text'', JDict [(''error'', JStr ''model overloaded'')]),
      (''number'', JInt 7),
      (''chunk'', JDict [(''choices'', JList
          [JDict [(''delta'', JDict [(''content'', JStr ''Hello'')])]])]),
      (''no-content'', JDict [(''messages'', JList [JDict [(''role'', JStr ''user'')]])]),
      (''one-image'', JDict [(''messages'', JList
          [JDict [(''role'', JStr ''system''), (''content'', JStr ''You are a helpful assistant'')],
           JDict [(''role'', JStr ''user''), (''content'', JList
              [JDict [(''type'', JStr ''text''), (''text'', JStr ''What is in this image?'')],
               JDict [(''type'', JStr ''image_url''),
                      (''image_url'', JDict [(''url'', JStr ''https://example.com/rabbit.jpg'')])]])]])])]"

definition example_written :: "(json \<times> bytes) list" where
  "example_written = [(mistral_payload (JStr ''Paris''), ''mistral-input'')]"

definition example_env :: "(exn + response) list \<Rightarrow> env" where
  "example_env script = scripted_env example_parsed example_written script"

definition example_state :: state where
  "example_state =
     \<lparr>self = init ''us-west-2'' ''chain-endpoint'' [''llama-ic'', ''mistral-ic''], sent = []\<rparr>"

text \<open>
  The same environment seen from a state whose log already holds one earlier
  invocation: the service counts from the second entry of the log.
\<close>

definition later_env :: "(exn + response) list \<Rightarrow> env" where
  "later_env script =
     (example_env script)\<lparr>invoke_endpoint := (\<lambda>log. scripted script (drop 1 log))\<rparr>"

definition later_state :: state where
  "later_state =
     example_state\<lparr>sent := [(\<lparr>service_name = ''sagemaker-runtime'', client_region = ''us-west-2''\<rparr>,
                              llama_request (self example_state) ''an earlier request'' ''llama-ic'')]\<rparr>"

text \<open>A scheduler that knows every schedule but the listed ones.\<close>

definition scheduler_without :: "string list \<Rightarrow> scheduler" where
  "scheduler_without missing log name =
     (if name \<in> set missing then Some ResourceNotFoundException else None)"

text \<open>A model as \<open>build()\<close> may return it: not sharded, isolated, with the image of the hub.\<close>

definition built_model :: model where
  "built_model = \<lparr>is_sharded_model = False, enable_network_isolation = True,
                   image_uri = ''jumpstart-default-image''\<rparr>"

text \<open>A scheduler whose every call raises the given exception.\<close>

definition scheduler_raising :: "exn \<Rightarrow> scheduler" where
  "scheduler_raising e log name = Some e"

section \<open>Properties of the orchestrator\<close>

lemmas comp_defs = andthen_def lift_def get_self_def client_def call_invoke_endpoint_def

lemmas example_defs = example_env_def scripted_env_def scripted_def table_loads_def
  table_dumps_def example_parsed_def example_written_def example_state_def body_of_def
  init_def read_body_def llama_request_def mistral_request_def mistral_payload_def
  generated_text_def

lemma invoke_workflow_self: "self (snd (invoke_workflow E data s)) = self s"
  by (simp add: invoke_workflow_def comp_defs split: sum.splits prod.splits)

text \<open>
  C1. When a client can be created, two components are configured, both invocations
  return and both bodies parse to a dictionary with \<open>generated_text\<close>, then for every
  request body \<open>data\<close> the handler issues exactly two invocations: the first to the first
  component with \<open>data\<close> as its body, the second to the second component with the
  serialised payload whose \<open>inputs\<close> is the text parsed from the first response and whose
  \<open>parameters\<close> is \<open>{"max_new_tokens": 50}\<close>. It returns the \<open>generated_text\<close> of the
  second response.
\<close>

theorem handle_two_stage:
  assumes "boto3_client E ''sagemaker-runtime'' (region_name (self s)) = Inr c"
    and "component_names (self s) = first_component # second_component # others"
    and "invoke_endpoint E (sent s) c
           \<lparr>EndpointName = endpoint_name (self s), Body = data,
            ContentType = ''application/json'', InferenceComponentName = first_component\<rparr>
         = Inr llama_response"
    and "read_body llama_response = Inr raw1"
    and "json_loads E raw1 = Inr doc1"
    and "subscript doc1 ''generated_text'' = Inr llama_generated_text"
    and "invoke_endpoint E
           (sent s @ [(c, \<lparr>EndpointName = endpoint_name (self s), Body = data,
                           ContentType = ''application/json'',
                           InferenceComponentName = first_component\<rparr>)]) c
           \<lparr>EndpointName = endpoint_name (self s),
            Body = json_dumps E (JDict [(''inputs'', llama_generated_text),
                                        (''parameters'', JDict [(''max_new_tokens'', JInt 50)])]),
            ContentType = ''application/json'', InferenceComponentName = second_component\<rparr>
         = Inr mistral_response"
    and "read_body mistral_response = Inr raw2"
    and "json_loads E raw2 = Inr doc2"
    and "subscript doc2 ''generated_text'' = Inr result"
  shows "handle E data context s =
           (Inr result,
            s\<lparr>sent := sent s @
               [(c, \<lparr>EndpointName = endpoint_name (self s), Body = data,
                      ContentType = ''application/json'',
                      InferenceComponentName = first_component\<rparr>),
                (c, \<lparr>EndpointName = endpoint_name (self s),
                      Body = json_dumps E (JDict [(''inputs'', llama_generated_text),
                                (''parameters'', JDict [(''max_new_tokens'', JInt 50)])]),
                      ContentType = ''application/json'',
                      InferenceComponentName = second_component\<rparr>)]\<rparr>)"
  using assms
  by (simp add: handle_def invoke_workflow_def comp_defs index_def generated_text_def
      llama_request_def mistral_request_def mistral_payload_def)

theorem handle_two_stage_witness:
  "handle (example_env [Inr (body_of ''llama-body''), Inr (body_of ''mistral-body'')])
     ''What is the capital of France?'' (None :: unit option) example_state
   = (Inr (JStr ''is the capital of France''),
      example_state\<lparr>sent :=
        [(\<lparr>service_name = ''sagemaker-runtime'', client_region = ''us-west-2''\<rparr>,
          \<lparr>EndpointName = ''chain-endpoint'', Body = ''What is the capital of France?'',
           ContentType = ''application/json'', InferenceComponentName = ''llama-ic''\<rparr>),
         (\<lparr>service_name = ''sagemaker-runtime'', client_region = ''us-west-2''\<rparr>,
          \<lparr>EndpointName = ''chain-endpoint'', Body = ''mistral-input'',
           ContentType = ''application/json'', InferenceComponentName = ''mistral-ic''\<rparr>)]\<rparr>)"
  using handle_two_stage
    [of "example_env [Inr (body_of ''llama-body''), Inr (body_of ''mistral-body'')]"
        example_state
        "\<lparr>service_name = ''sagemaker-runtime'', client_region = ''us-west-2''\<rparr>"
        "''llama-ic''" "''mistral-ic''" "[]" "''What is the capital of France?''"
        "body_of ''llama-body''" "''llama-body''" "JDict [(''generated_text'', JStr ''Paris'')]"
        "JStr ''Paris''" "body_of ''mistral-body''" "''mistral-body''"
        "JDict [(''generated_text'', JStr ''is the capital of France'')]"
        "JStr ''is the capital of France''" "None :: unit option"]
  by (simp add: example_defs)

text \<open>
  C2. The handler writes no attribute of \<open>self\<close>: whatever the outcome, the object after
  the call is the object before it, and after construction and two invocations in a row
  the three fields still hold the constructor's arguments. The only other part of the
  state is the log of what was sent to the service.
\<close>

theorem handle_writes_no_attribute:
  "self (snd (handle E data context s)) = self s \<and>
   self (snd (handle E data2 context2
                (snd (handle E data context
                        \<lparr>self = init region endpoint components, sent = log\<rparr>))))
     = \<lparr>region_name = region, endpoint_name = endpoint, component_names = components\<rparr>"
  by (simp add: handle_def invoke_workflow_self init_def)

lemma generated_text_raises:
  "(generated_text E r = Inl e) =
     (read_body r = Inl e
      \<or> (\<exists>raw. read_body r = Inr raw
            \<and> (json_loads E raw = Inl e
                 \<or> (\<exists>doc. json_loads E raw = Inr doc
                       \<and> subscript doc ''generated_text'' = Inl e))))"
  by (auto simp: generated_text_def split: sum.splits)

lemma handle_steps:
  "handle E data context s =
      (case boto3_client E ''sagemaker-runtime'' (region_name (self s)) of
         Inl e \<Rightarrow> (Inl e, s)
       | Inr c1 \<Rightarrow>
          (case component_names (self s) of
             [] \<Rightarrow> (Inl IndexError, s)
           | n0 # rest \<Rightarrow>
              (let s1 = s\<lparr>sent := sent s @ [(c1, llama_request (self s) data n0)]\<rparr> in
               case invoke_endpoint E (sent s) c1 (llama_request (self s) data n0) of
                 Inl e \<Rightarrow> (Inl e, s1)
               | Inr r1 \<Rightarrow>
                  (case generated_text E r1 of
                     Inl e \<Rightarrow> (Inl e, s1)
                   | Inr t \<Rightarrow>
                      (case rest of
                         [] \<Rightarrow> (Inl IndexError, s1)
                       | n1 # ns \<Rightarrow>
                          (let s2 = s1\<lparr>sent := sent s1 @ [(c1, mistral_request E (self s) t n1)]\<rparr> in
                           case invoke_endpoint E (sent s1) c1 (mistral_request E (self s) t n1) of
                             Inl e \<Rightarrow> (Inl e, s2)
                           | Inr r2 \<Rightarrow> (generated_text E r2, s2)))))))"
    by (simp add: handle_def invoke_workflow_def comp_defs index_def Let_def
        split: sum.splits list.splits)

text \<open>
  C5. The handler catches nothing: every exception raised inside it is its outcome,
  unchanged, and the log holds the invocations made up to that point, each once, so
  nothing is retried. The cases are all the places where the handler can fail: creating
  the client, indexing the component names, the first invocation, the first response
  (reading its body, parsing it, taking its \<open>generated_text\<close>), the second index, the
  second invocation and the second response. The last conjunct spells out what a failure
  of a response is.
\<close>

theorem handle_propagates_exceptions:
  "(boto3_client E ''sagemaker-runtime'' (region_name (self s)) = Inl e
      \<longrightarrow> handle E data context s = (Inl e, s))
   \<and> (boto3_client E ''sagemaker-runtime'' (region_name (self s)) = Inr c
        \<and> component_names (self s) = []
      \<longrightarrow> handle E data context s = (Inl IndexError, s))
   \<and> (boto3_client E ''sagemaker-runtime'' (region_name (self s)) = Inr c
        \<and> component_names (self s) = first_component # remaining
        \<and> invoke_endpoint E (sent s) c (llama_request (self s) data first_component) = Inl e
      \<longrightarrow> handle E data context s
          = (Inl e, s\<lparr>sent := sent s @ [(c, llama_request (self s) data first_component)]\<rparr>))
   \<and> (boto3_client E ''sagemaker-runtime'' (region_name (self s)) = Inr c
        \<and> component_names (self s) = first_component # remaining
        \<and> invoke_endpoint E (sent s) c (llama_request (self s) data first_component) = Inr r
        \<and> generated_text E r = Inl e
      \<longrightarrow> handle E data context s
          = (Inl e, s\<lparr>sent := sent s @ [(c, llama_request (self s) data first_component)]\<rparr>))
   \<and> (boto3_client E ''sagemaker-runtime'' (region_name (self s)) = Inr c
        \<and> component_names (self s) = [first_component]
        \<and> invoke_endpoint E (sent s) c (llama_request (self s) data first_component) = Inr r
        \<and> generated_text E r = Inr text
      \<longrightarrow> handle E data context s
          = (Inl IndexError,
             s\<lparr>sent := sent s @ [(c, llama_request (self s) data first_component)]\<rparr>))
   \<and> (boto3_client E ''sagemaker-runtime'' (region_name (self s)) = Inr c
        \<and> component_names (self s) = first_component # second_component # others
        \<and> invoke_endpoint E (sent s) c (llama_request (self s) data first_component) = Inr r
        \<and> generated_text E r = Inr text
        \<and> invoke_endpoint E
             (sent s @ [(c, llama_request (self s) data first_component)]) c
             (mistral_request E (self s) text second_component) = Inl e
      \<longrightarrow> handle E data context s
          = (Inl e, s\<lparr>sent := sent s @
               [(c, llama_request (self s) data first_component),
                (c, mistral_request E (self s) text second_component)]\<rparr>))
   \<and> (boto3_client E ''sagemaker-runtime'' (region_name (self s)) = Inr c
        \<and> component_names (self s) = first_component # second_component # others
        \<and> invoke_endpoint E (sent s) c (llama_request (self s) data first_component) = Inr r
        \<and> generated_text E r = Inr text
        \<and> invoke_endpoint E
             (sent s @ [(c, llama_request (self s) data first_component)]) c
             (mistral_request E (self s) text second_component) = Inr r2
        \<and> generated_text E r2 = Inl e
      \<longrightarrow> handle E data context s
          = (Inl e, s\<lparr>sent := sent s @
               [(c, llama_request (self s) data first_component),
                (c, mistral_request E (self s) text second_component)]\<rparr>))
   \<and> ((generated_text E r = Inl e) =
        (read_body r = Inl e
         \<or> (\<exists>raw. read_body r = Inr raw
               \<and> (json_loads E raw = Inl e
                    \<or> (\<exists>doc. json_loads E raw = Inr doc
                          \<and> subscript doc ''generated_text'' = Inl e)))))"
  unfolding handle_steps
  by (intro conjI impI) (simp_all add: Let_def generated_text_raises [symmetric])

theorem handle_propagates_exceptions_witness:
  "handle (example_env [Inl (ClientException ''ModelError'')])
     ''What is the capital of France?'' (None :: unit option) example_state
   = (Inl (ClientException ''ModelError''),
      example_state\<lparr>sent := [(\<lparr>service_name = ''sagemaker-runtime'', client_region = ''us-west-2''\<rparr>,
         llama_request (self example_state) ''What is the capital of France?'' ''llama-ic'')]\<rparr>)
   \<and> fst (handle (example_env [Inr []])
          ''What is the capital of France?'' (None :: unit option) example_state)
     = Inl AttributeError
   \<and> fst (handle (example_env [Inr (body_of ''not json'')])
          ''What is the capital of France?'' (None :: unit option) example_state)
     = Inl JSONDecodeError
   \<and> fst (handle (example_env [Inr (body_of ''no-text'')])
          ''What is the capital of France?'' (None :: unit option) example_state)
     = Inl (KeyError ''generated_text'')
   \<and> handle (example_env [Inr (body_of ''llama-body''), Inl (ClientException ''ModelError'')])
          ''What is the capital of France?'' (None :: unit option) example_state
     = (Inl (ClientException ''ModelError''),
        example_state\<lparr>sent :=
          [(\<lparr>service_name = ''sagemaker-runtime'', client_region = ''us-west-2''\<rparr>,
            \<lparr>EndpointName = ''chain-endpoint'', Body = ''What is the capital of France?'',
             ContentType = ''application/json'', InferenceComponentName = ''llama-ic''\<rparr>),
           (\<lparr>service_name = ''sagemaker-runtime'', client_region = ''us-west-2''\<rparr>,
            \<lparr>EndpointName = ''chain-endpoint'', Body = ''mistral-input'',
             ContentType = ''application/json'', InferenceComponentName = ''mistral-ic''\<rparr>)]\<rparr>)
   \<and> fst (handle (example_env [Inr (body_of ''llama-body''), Inr (body_of ''no-text'')])
          ''What is the capital of France?'' (None :: unit option) example_state)
     = Inl (KeyError ''generated_text'')"
proof -
  let ?c = "\<lparr>service_name = ''sagemaker-runtime'', client_region = ''us-west-2''\<rparr>"
  let ?data = "''What is the capital of France?''"
  let ?none = "None :: unit option"
  have a: "handle (example_env [Inl (ClientException ''ModelError'')]) ?data ?none example_state
     = (Inl (ClientException ''ModelError''),
        example_state\<lparr>sent := [(?c, llama_request (self example_state) ?data ''llama-ic'')]\<rparr>)"
    using handle_propagates_exceptions
      [of "example_env [Inl (ClientException ''ModelError'')]" example_state
          "ClientException ''ModelError''" ?data ?none ?c "''llama-ic''" "[''mistral-ic'']"]
    by (simp add: example_defs)
  have b: "fst (handle (example_env [Inr []]) ?data ?none example_state) = Inl AttributeError"
    using handle_propagates_exceptions
      [of "example_env [Inr []]" example_state AttributeError ?data ?none ?c
          "''llama-ic''" "[''mistral-ic'']" "[]"]
    by (simp add: example_defs)
  have c: "fst (handle (example_env [Inr (body_of ''not json'')]) ?data ?none example_state)
             = Inl JSONDecodeError"
    using handle_propagates_exceptions
      [of "example_env [Inr (body_of ''not json'')]" example_state JSONDecodeError ?data ?none ?c
          "''llama-ic''" "[''mistral-ic'']" "body_of ''not json''"]
    by (simp add: example_defs)
  have d: "fst (handle (example_env [Inr (body_of ''no-text'')]) ?data ?none example_state)
             = Inl (KeyError ''generated_text'')"
    using handle_propagates_exceptions
      [of "example_env [Inr (body_of ''no-text'')]" example_state "KeyError ''generated_text''"
          ?data ?none ?c "''llama-ic''" "[''mistral-ic'']" "body_of ''no-text''"]
    by (simp add: example_defs)
  have e: "handle (example_env [Inr (body_of ''llama-body''), Inl (ClientException ''ModelError'')])
          ?data ?none example_state
     = (Inl (ClientException ''ModelError''),
        example_state\<lparr>sent :=
          [(?c, \<lparr>EndpointName = ''chain-endpoint'', Body = ?data,
             ContentType = ''application/json'', InferenceComponentName = ''llama-ic''\<rparr>),
           (?c, \<lparr>EndpointName = ''chain-endpoint'', Body = ''mistral-input'',
             ContentType = ''application/json'', InferenceComponentName = ''mistral-ic''\<rparr>)]\<rparr>)"
    using handle_propagates_exceptions
      [of "example_env [Inr (body_of ''llama-body''), Inl (ClientException ''ModelError'')]"
          example_state "ClientException ''ModelError''" ?data ?none ?c
          "''llama-ic''" "[''mistral-ic'']" "body_of ''llama-body''" "JStr ''Paris''"
          "''mistral-ic''" "[]"]
    by (simp add: example_defs)
  have f: "fst (handle (example_env [Inr (body_of ''llama-body''), Inr (body_of ''no-text'')])
          ?data ?none example_state) = Inl (KeyError ''generated_text'')"
    using handle_propagates_exceptions
      [of "example_env [Inr (body_of ''llama-body''), Inr (body_of ''no-text'')]"
          example_state "KeyError ''generated_text''" ?data ?none ?c
          "''llama-ic''" "[''mistral-ic'']" "body_of ''llama-body''" "JStr ''Paris''"
          "''mistral-ic''" "[]" "body_of ''no-text''"]
    by (simp add: example_defs)
  from a b c d e f show ?thesis by simp
qed

text \<open>
  C6. The outcome and the invocations of the handler are a function of the request
  body, the configuration and the answers of the service, and the invocations are made
  one after the other. Take two runs, in two environments and from two states with
  different histories, that share the request body, the configuration and the library,
  and in which the service gives the same answer to the first request and, when that
  answer yields a text, the same answer to the second request built from it. Then both
  runs have the same outcome, which is computed from the two answers alone. Both add the
  same invocations to the log: the request to the first component first; the request to
  the second component after it, asked of a service that has already logged the first,
  with a body built from the text of the first answer; and no second request when the
  first invocation raises or its answer yields no text.
\<close>

theorem handle_deterministic:
  assumes "self s1 = self s2"
    and "boto3_client E1 = boto3_client E2"
    and "json_loads E1 = json_loads E2"
    and "json_dumps E1 = json_dumps E2"
    and "boto3_client E1 ''sagemaker-runtime'' (region_name (self s1)) = Inr c"
    and "component_names (self s1) = first_component # second_component # others"
    and "invoke_endpoint E1 (sent s1) c (llama_request (self s1) data first_component) = answer1"
    and "invoke_endpoint E2 (sent s2) c (llama_request (self s1) data first_component) = answer1"
    and "\<forall>r text. answer1 = Inr r \<and> generated_text E1 r = Inr text \<longrightarrow>
           invoke_endpoint E1 (sent s1 @ [(c, llama_request (self s1) data first_component)]) c
             (mistral_request E1 (self s1) text second_component) = answer2
         \<and> invoke_endpoint E2 (sent s2 @ [(c, llama_request (self s1) data first_component)]) c
             (mistral_request E1 (self s1) text second_component) = answer2"
  shows "fst (handle E1 data context1 s1) = fst (handle E2 data context2 s2)
       \<and> fst (handle E1 data context1 s1)
           = (case answer1 of Inl e \<Rightarrow> Inl e
              | Inr r \<Rightarrow> (case generated_text E1 r of Inl e \<Rightarrow> Inl e
                  | Inr text \<Rightarrow> (case answer2 of Inl e \<Rightarrow> Inl e
                      | Inr r2 \<Rightarrow> generated_text E1 r2)))
       \<and> sent (snd (handle E1 data context1 s1))
           = sent s1 @
             (case answer1 of Inl e \<Rightarrow> [(c, llama_request (self s1) data first_component)]
              | Inr r \<Rightarrow> (case generated_text E1 r of
                    Inl e \<Rightarrow> [(c, llama_request (self s1) data first_component)]
                  | Inr text \<Rightarrow> [(c, llama_request (self s1) data first_component),
                                 (c, mistral_request E1 (self s1) text second_component)]))
       \<and> sent (snd (handle E2 data context2 s2))
           = sent s2 @
             (case answer1 of Inl e \<Rightarrow> [(c, llama_request (self s1) data first_component)]
              | Inr r \<Rightarrow> (case generated_text E1 r of
                    Inl e \<Rightarrow> [(c, llama_request (self s1) data first_component)]
                  | Inr text \<Rightarrow> [(c, llama_request (self s1) data first_component),
                                 (c, mistral_request E1 (self s1) text second_component)]))"
proof -
  have gen: "generated_text E2 = generated_text E1"
    by (rule ext) (simp add: generated_text_def assms(3) [symmetric] split: sum.splits)
  have req: "mistral_request E2 = mistral_request E1"
    by (intro ext) (simp add: mistral_request_def assms(4) [symmetric])
  have client2: "boto3_client E2 ''sagemaker-runtime'' (region_name (self s2)) = Inr c"
    using assms(1,2,5) by simp
  have names2: "component_names (self s2) = first_component # second_component # others"
    using assms(1,6) by simp
  show ?thesis
    unfolding handle_steps gen req client2 names2
    using assms(1,5,6,7,8,9)
    by (auto simp: Let_def split: sum.splits)
qed

theorem handle_deterministic_witness:
  "fst (handle (example_env [Inr (body_of ''llama-body''), Inr (body_of ''mistral-body'')])
          ''What is the capital of France?'' (None :: unit option) example_state)
   = fst (handle (later_env [Inr (body_of ''llama-body''), Inr (body_of ''mistral-body'')])
          ''What is the capital of France?'' (None :: unit option) later_state)
   \<and> fst (handle (example_env [Inr (body_of ''llama-body''), Inr (body_of ''mistral-body'')])
          ''What is the capital of France?'' (None :: unit option) example_state)
   = Inr (JStr ''is the capital of France'')
   \<and> sent (snd (handle (later_env [Inr (body_of ''llama-body''), Inr (body_of ''mistral-body'')])
          ''What is the capital of France?'' (None :: unit option) later_state))
   = sent later_state @
       [(\<lparr>service_name = ''sagemaker-runtime'', client_region = ''us-west-2''\<rparr>,
         \<lparr>EndpointName = ''chain-endpoint'', Body = ''What is the capital of France?'',
          ContentType = ''application/json'', InferenceComponentName = ''llama-ic''\<rparr>),
        (\<lparr>service_name = ''sagemaker-runtime'', client_region = ''us-west-2''\<rparr>,
         \<lparr>EndpointName = ''chain-endpoint'', Body = ''mistral-input'',
          ContentType = ''application/json'', InferenceComponentName = ''mistral-ic''\<rparr>)]
   \<and> sent example_state \<noteq> sent later_state"
proof -
  let ?script = "[Inr (body_of ''llama-body''), Inr (body_of ''mistral-body'')]"
  let ?c = "\<lparr>service_name = ''sagemaker-runtime'', client_region = ''us-west-2''\<rparr>"
  let ?data = "''What is the capital of France?''"
  let ?req1 = "llama_request (self example_state) ?data ''llama-ic''"
  have same: "self example_state = self later_state"
    by (simp add: later_state_def)
  have lib: "boto3_client (example_env ?script) = boto3_client (later_env ?script)"
    "json_loads (example_env ?script) = json_loads (later_env ?script)"
    "json_dumps (example_env ?script) = json_dumps (later_env ?script)"
    by (simp_all add: later_env_def)
  have made: "boto3_client (example_env ?script) ''sagemaker-runtime''
                (region_name (self example_state)) = Inr ?c"
    by (simp add: example_defs)
  have names: "component_names (self example_state) = ''llama-ic'' # ''mistral-ic'' # []"
    by (simp add: example_defs)
  have first1: "invoke_endpoint (example_env ?script) (sent example_state) ?c ?req1
                  = Inr (body_of ''llama-body'')"
    by (simp add: example_env_def scripted_env_def scripted_def example_state_def)
  have first2: "invoke_endpoint (later_env ?script) (sent later_state) ?c ?req1
                  = Inr (body_of ''llama-body'')"
    by (simp add: later_env_def later_state_def example_env_def scripted_env_def scripted_def
        example_state_def)
  have second: "\<forall>r text. Inr (body_of ''llama-body'') = (Inr r :: exn + response)
        \<and> generated_text (example_env ?script) r = Inr text \<longrightarrow>
           invoke_endpoint (example_env ?script) (sent example_state @ [(?c, ?req1)]) ?c
             (mistral_request (example_env ?script) (self example_state) text ''mistral-ic'')
             = Inr (body_of ''mistral-body'')
         \<and> invoke_endpoint (later_env ?script) (sent later_state @ [(?c, ?req1)]) ?c
             (mistral_request (example_env ?script) (self example_state) text ''mistral-ic'')
             = Inr (body_of ''mistral-body'')"
    by (simp add: later_env_def later_state_def example_env_def scripted_env_def scripted_def
        example_state_def)
  have differ: "sent example_state \<noteq> sent later_state"
    by (simp add: later_state_def example_state_def)
  note run = handle_deterministic [OF same lib made names first1 first2 second,
      of "None :: unit option" "None :: unit option"]
  from run have equal: "fst (handle (example_env ?script) ?data (None :: unit option) example_state)
      = fst (handle (later_env ?script) ?data (None :: unit option) later_state)"
    by (rule conjunct1)
  from run [THEN conjunct2, THEN conjunct1]
  have outcome: "fst (handle (example_env ?script) ?data (None :: unit option) example_state)
      = Inr (JStr ''is the capital of France'')"
    by (simp add: example_defs)
  from run [THEN conjunct2, THEN conjunct2, THEN conjunct2]
  have calls: "sent (snd (handle (later_env ?script) ?data (None :: unit option) later_state))
      = sent later_state @
         [(?c, \<lparr>EndpointName = ''chain-endpoint'', Body = ?data,
                ContentType = ''application/json'', InferenceComponentName = ''llama-ic''\<rparr>),
          (?c, \<lparr>EndpointName = ''chain-endpoint'', Body = ''mistral-input'',
                ContentType = ''application/json'', InferenceComponentName = ''mistral-ic''\<rparr>)]"
    by (simp add: example_defs)
  from equal outcome calls differ show ?thesis
    by (intro conjI)
qed

text \<open>
  C10. The handler does not look at its context: with the same request body, any two
  contexts give the same invocations and the same result.
\<close>

theorem handle_ignores_context:
  "handle E data context1 s = handle E data context2 s"
  by (simp add: handle_def)

section \<open>Properties of the interface\<close>

text \<open>
  C7. Of the classes at hand one is abstract, \<open>CustomOrchestrator\<close>, its only abstract
  method is \<open>handle\<close>, and one class derives from it,
  \<open>PythonCustomInferenceEntryPoint\<close>. The derived class lacks no required method; the
  lookup of \<open>handle\<close> on it finds its own method, not the abstract one of the base, and a
  call through the interface runs that body. The abstract class itself still lacks
  \<open>handle\<close> and cannot be called.
\<close>

theorem single_interface_single_implementation:
  "map cname (filter (\<lambda>d. declared_abstract d \<noteq> []) source_classes) = [''CustomOrchestrator'']
   \<and> declared_abstract CustomOrchestrator = [''handle'']
   \<and> required_methods ''CustomOrchestrator'' = [''handle'']
   \<and> map cname (filter (\<lambda>d. ''CustomOrchestrator'' \<in> set (bases d)) source_classes)
       = [''PythonCustomInferenceEntryPoint'']
   \<and> required_methods ''PythonCustomInferenceEntryPoint'' = []
   \<and> lookup_member ''PythonCustomInferenceEntryPoint'' ''handle''
       = Some (''PythonCustomInferenceEntryPoint'', Method)
   \<and> lookup_member ''CustomOrchestrator'' ''handle''
       = Some (''CustomOrchestrator'', AbstractMethod)
   \<and> interface_handle ''PythonCustomInferenceEntryPoint'' E data context s
       = Some (case handle E data context s of
                 (Inl e, s') \<Rightarrow> (Inl e, s')
               | (Inr v, s') \<Rightarrow> (Inr (Returned v), s'))
   \<and> interface_handle ''CustomOrchestrator'' E data context s = None"
  by (simp add: source_classes_def CustomOrchestrator_def PythonCustomInferenceEntryPoint_def
      declared_abstract_def required_methods_def lookup_member_def find_class_def
      interface_handle_def handle_bodies_def PythonCustomInferenceEntryPoint_handle_def)

section \<open>Properties of the image URL helper\<close>

lemma subscript_Inr_iff: "(subscript v k = Inr w) = (field v k = Some w)"
  by (cases v) (simp_all add: field_def split: option.splits)

lemma subscript_Inl_iff: "(\<exists>e. subscript v k = Inl e) = (field v k = None)"
  by (cases v) (simp_all add: field_def split: option.splits)

lemma subscript_cases:
  obtains (found) w where "subscript v k = Inr w" "field v k = Some w"
        | (raised) e where "subscript v k = Inl e" "field v k = None"
proof (cases "subscript v k")
  case (Inl e)
  then have "field v k = None" using subscript_Inl_iff[of v k] by blast
  with Inl show ?thesis by (rule raised)
next
  case (Inr w)
  then have "field v k = Some w" by (simp add: subscript_Inr_iff)
  with Inr show ?thesis by (rule found)
qed

lemma content_loop_returns:
  "(content_loop entries acc = Inr urls) =
     (list_all entry_ok entries \<and>
      urls = acc @ concat (map entry_url (filter is_image_entry entries)))"
proof (induction entries arbitrary: acc)
  case Nil
  show ?case by auto
next
  case (Cons ms rest)
  show ?case
  proof (cases rule: subscript_cases[of ms "''type''"])
    case (raised e)
    then show ?thesis by (simp add: entry_ok_def)
  next
    case (found ty)
    show ?thesis
    proof (cases "ty = JStr ''image_url''")
      case False
      with found Cons.IH show ?thesis
        by (simp add: entry_ok_def is_image_entry_def)
    next
      case True
      show ?thesis
      proof (cases rule: subscript_cases[of ms "''image_url''"])
        case (raised e)
        with found True show ?thesis by (simp add: entry_ok_def entry_url_def)
      next
        case holder: (found holder)
        show ?thesis
        proof (cases rule: subscript_cases[of holder "''url''"])
          case (raised e)
          with found True holder show ?thesis by (simp add: entry_ok_def entry_url_def)
        next
          case url: (found u)
          with found True holder Cons.IH show ?thesis
            by (simp add: entry_ok_def entry_url_def is_image_entry_def)
        qed
      qed
    qed
  qed
qed

lemma messages_loop_returns:
  "(messages_loop msgs acc = Inr urls) =
     (list_all message_ok msgs \<and> urls = acc @ described_image_urls msgs)"
proof (induction msgs arbitrary: acc)
  case Nil
  show ?case by (auto simp: described_image_urls_def)
next
  case (Cons msg rest)
  show ?case
  proof (cases rule: subscript_cases[of msg "''content''"])
    case (raised e)
    then show ?thesis by (simp add: message_ok_def)
  next
    case (found content)
    show ?thesis
    proof (cases "\<exists>entries. content = JList entries")
      case False
      with found Cons.IH show ?thesis
        by (cases content) (simp_all add: message_ok_def message_urls_def described_image_urls_def)
    next
      case True
      then obtain entries where c: "content = JList entries" by blast
      show ?thesis
      proof (cases "content_loop entries acc")
        case (Inl e)
        then have "\<not> list_all entry_ok entries"
          using content_loop_returns[of entries acc] by auto
        with found c Inl show ?thesis by (simp add: message_ok_def)
      next
        case (Inr acc')
        then have "list_all entry_ok entries"
          and "acc' = acc @ concat (map entry_url (filter is_image_entry entries))"
          using content_loop_returns[of entries acc acc'] by auto
        with found c Inr Cons.IH show ?thesis
          by (simp add: message_ok_def message_urls_def described_image_urls_def)
      qed
    qed
  qed
qed

lemma get_image_urls_raises_early:
  "json_loads E payload = Inl e \<Longrightarrow> get_image_urls E payload = Inl e"
  "json_loads E payload = Inr doc \<Longrightarrow> subscript doc ''messages'' = Inl e
     \<Longrightarrow> get_image_urls E payload = Inl e"
  "json_loads E payload = Inr doc \<Longrightarrow> subscript doc ''messages'' = Inr listed
     \<Longrightarrow> iterate listed = Inl e \<Longrightarrow> get_image_urls E payload = Inl e"
  by (simp_all add: get_image_urls_def)

lemma string_content_contributes_nothing:
  "field msg ''content'' = Some (JStr text) \<Longrightarrow> message_urls msg = []"
  by (simp add: message_urls_def)

lemma no_entries_no_urls:
  "list_all (\<lambda>msg. message_urls msg = []) msgs \<Longrightarrow> described_image_urls msgs = []"
  by (induction msgs) (simp_all add: described_image_urls_def)

lemma subscript_raises: "subscript v k = Inl e \<Longrightarrow> is_lookup_error e"
  by (cases v) (auto split: option.splits)

lemma iterate_raises: "iterate v = Inl e \<Longrightarrow> e = TypeError"
  by (cases v) auto

lemma content_loop_raises: "content_loop entries acc = Inl e \<Longrightarrow> is_lookup_error e"
proof (induction entries arbitrary: acc)
  case Nil
  then show ?case by simp
next
  case (Cons ms rest)
  then show ?case
    by (auto split: sum.splits if_splits dest: subscript_raises)
qed

lemma messages_loop_raises: "messages_loop msgs acc = Inl e \<Longrightarrow> is_lookup_error e"
proof (induction msgs arbitrary: acc)
  case Nil
  then show ?case by simp
next
  case (Cons msg rest)
  then show ?case
    by (auto split: sum.splits json.splits dest: subscript_raises content_loop_raises)
qed

lemma listed_messages_Some:
  "(listed_messages doc = Some msgs) =
     (\<exists>listed. subscript doc ''messages'' = Inr listed \<and> iterate listed = Inr msgs)"
  by (auto simp: listed_messages_def subscript_Inr_iff split: option.splits sum.splits)

lemma get_image_urls_returns:
  assumes "json_loads E payload = Inr doc"
  shows "(get_image_urls E payload = Inr urls) =
           (\<exists>msgs. listed_messages doc = Some msgs \<and> list_all message_ok msgs
                    \<and> urls = described_image_urls msgs)"
  using assms
  by (auto simp: get_image_urls_def listed_messages_Some messages_loop_returns
      split: sum.splits)

lemma get_image_urls_raises:
  assumes "json_loads E payload = Inr doc" and "get_image_urls E payload = Inl e"
  shows "is_lookup_error e"
  using assms
  by (auto simp: get_image_urls_def split: sum.splits
      dest: subscript_raises iterate_raises messages_loop_raises)

text \<open>
  C9, as stated, at a payload with one message that has no \<open>content\<close>: the payload has no
  image entry, so the description gives the empty list, but the function raises
  \<open>KeyError\<close>.
\<close>

theorem get_image_urls_counterexample:
  "json_loads (example_env []) ''no-content''
     = Inr (JDict [(''messages'', JList [JDict [(''role'', JStr ''user'')]])])
   \<and> described_image_urls [JDict [(''role'', JStr ''user'')]] = []
   \<and> get_image_urls (example_env []) ''no-content'' = Inl (KeyError ''content'')"
  by (simp add: get_image_urls_def example_env_def scripted_env_def table_loads_def
      example_parsed_def described_image_urls_def message_urls_def field_def)

text \<open>
  C9, amended. If \<open>json.loads\<close> raises on the payload, the function raises that
  exception. Otherwise it returns a list exactly when the parsed value is an object whose
  \<open>messages\<close> can be iterated, every message has a \<open>content\<close> key, every entry of a
  list content has a \<open>type\<close> key and every entry of type \<open>image_url\<close> has an
  \<open>image_url\<close> object with a \<open>url\<close> key; the list is then the \<open>image_url.url\<close> values
  of the entries of type \<open>image_url\<close> inside list contents, in message order, then entry
  order. In every other case it raises \<open>KeyError\<close> or \<open>TypeError\<close>.
\<close>

theorem get_image_urls_described:
  "(json_loads E payload = Inl e \<longrightarrow> get_image_urls E payload = Inl e)
   \<and> (json_loads E payload = Inr doc \<longrightarrow>
        ((get_image_urls E payload = Inr urls) =
           (\<exists>msgs. listed_messages doc = Some msgs \<and> list_all message_ok msgs
                    \<and> urls = described_image_urls msgs))
        \<and> ((\<exists>msgs. listed_messages doc = Some msgs \<and> list_all message_ok msgs)
            \<or> (\<exists>x. get_image_urls E payload = Inl x \<and> is_lookup_error x)))"
proof (intro conjI impI)
  assume "json_loads E payload = Inl e"
  then show "get_image_urls E payload = Inl e"
    by (simp add: get_image_urls_def)
next
  assume parsed: "json_loads E payload = Inr doc"
  then show "(get_image_urls E payload = Inr urls) =
           (\<exists>msgs. listed_messages doc = Some msgs \<and> list_all message_ok msgs
                    \<and> urls = described_image_urls msgs)"
    by (rule get_image_urls_returns)
next
  assume parsed: "json_loads E payload = Inr doc"
  show "(\<exists>msgs. listed_messages doc = Some msgs \<and> list_all message_ok msgs)
            \<or> (\<exists>x. get_image_urls E payload = Inl x \<and> is_lookup_error x)"
  proof (cases "get_image_urls E payload")
    case (Inl x)
    with parsed have "is_lookup_error x" by (rule get_image_urls_raises)
    with Inl show ?thesis by blast
  next
    case (Inr found)
    with get_image_urls_returns [OF parsed, of found] show ?thesis by blast
  qed
qed

theorem get_image_urls_described_witness:
  "get_image_urls (example_env []) ''one-image'' = Inr [JStr ''https://example.com/rabbit.jpg'']
   \<and> get_image_urls (example_env []) ''not json'' = Inl JSONDecodeError
   \<and> (\<exists>x. get_image_urls (example_env []) ''number'' = Inl x \<and> is_lookup_error x)"
proof -
  let ?system = "JDict [(''role'', JStr ''system''), (''content'', JStr ''You are a helpful assistant'')]"
  let ?user = "JDict [(''role'', JStr ''user''), (''content'', JList
              [JDict [(''type'', JStr ''text''), (''text'', JStr ''What is in this image?'')],
               JDict [(''type'', JStr ''image_url''),
                      (''image_url'', JDict [(''url'', JStr ''https://example.com/rabbit.jpg'')])]])]"
  have parsed: "json_loads (example_env []) ''one-image''
                  = Inr (JDict [(''messages'', JList [?system, ?user])])"
    by (simp add: example_env_def scripted_env_def table_loads_def example_parsed_def)
  have listed: "listed_messages (JDict [(''messages'', JList [?system, ?user])])
                  = Some [?system, ?user]"
    by (simp add: listed_messages_def field_def)
  have ok: "list_all message_ok [?system, ?user]"
    by (simp add: message_ok_def entry_ok_def entry_url_def field_def)
  have urls: "described_image_urls [?system, ?user] = [JStr ''https://example.com/rabbit.jpg'']"
    by (simp add: described_image_urls_def message_urls_def entry_url_def is_image_entry_def
        field_def)
  from get_image_urls_described
         [of "example_env []" "''one-image''" _ "JDict [(''messages'', JList [?system, ?user])]"
             "[JStr ''https://example.com/rabbit.jpg'']"]
       parsed listed ok urls
  have returned: "get_image_urls (example_env []) ''one-image''
                    = Inr [JStr ''https://example.com/rabbit.jpg'']"
    by simp
  have unparsed: "json_loads (example_env []) ''not json'' = Inl JSONDecodeError"
    by (simp add: example_env_def scripted_env_def table_loads_def example_parsed_def)
  from get_image_urls_described [of "example_env []" "''not json''" JSONDecodeError] unparsed
  have decode: "get_image_urls (example_env []) ''not json'' = Inl JSONDecodeError"
    by simp
  have number: "json_loads (example_env []) ''number'' = Inr (JInt 7)"
    by (simp add: example_env_def scripted_env_def table_loads_def example_parsed_def)
  have unlisted: "listed_messages (JInt 7) = None"
    by (simp add: listed_messages_def field_def)
  from get_image_urls_described [of "example_env []" "''number''" _ "JInt 7"] number unlisted
  have raised: "\<exists>x. get_image_urls (example_env []) ''number'' = Inl x \<and> is_lookup_error x"
    by simp
  from returned decode raised show ?thesis by (intro conjI)
qed

section \<open>Properties of the notebook cells\<close>

lemma subscript_not_decode_error: "subscript v k \<noteq> Inl JSONDecodeError"
  by (cases v) (simp_all split: option.splits)

lemma py_get_not_decode_error: "py_get v k d \<noteq> Inl JSONDecodeError"
  by (cases v) simp_all

lemma first_item_not_decode_error: "first_item v \<noteq> Inl JSONDecodeError"
  by (cases v) (simp_all add: index_def)

lemma py_len_not_decode_error: "py_len v \<noteq> Inl JSONDecodeError"
  by (cases v) simp_all

lemma py_in_not_decode_error: "py_in k v \<noteq> Inl JSONDecodeError"
  by (cases v) simp_all

lemma delta_field_not_decode_error: "delta_field chunk k \<noteq> Inl JSONDecodeError"
  using subscript_not_decode_error first_item_not_decode_error py_get_not_decode_error
  by (auto simp: delta_field_def split: sum.splits)

lemma chunk_output_not_decode_error: "chunk_output chunk \<noteq> Inl JSONDecodeError"
  using subscript_not_decode_error py_len_not_decode_error py_in_not_decode_error
    delta_field_not_decode_error
  by (auto simp: chunk_output_def split: sum.splits bool.splits if_splits)

lemma event_bytes_not_decode_error: "event_bytes ev \<noteq> Inl JSONDecodeError"
  by (simp add: event_bytes_def split: option.splits)

lemma stream_loop_step:
  "stream_loop decode E (Inr ev # events) sst =
     (case event_bytes ev of
        Inl e \<Rightarrow> (Some (Raised e), sst)
      | Inr b \<Rightarrow>
          (case decode b of
             Inl e \<Rightarrow>
               if e = JSONDecodeError
               then (case line sst of
                       None \<Rightarrow> (Some NameError, sst)
                     | Some l0 \<Rightarrow> stream_loop decode E events
                                   (sst\<lparr>printed := printed sst @ [Error_decoding_JSON l0]\<rparr>))
               else (Some (Raised e), sst)
           | Inr l \<Rightarrow>
               (case json_loads E l of
                  Inl e \<Rightarrow>
                    if e = JSONDecodeError
                    then stream_loop decode E events
                           (sst\<lparr>line := Some l,
                                printed := printed sst @ [Error_decoding_JSON l]\<rparr>)
                    else (Some (Raised e), sst\<lparr>line := Some l\<rparr>)
                | Inr chunk \<Rightarrow>
                    (case chunk_output chunk of
                       Inl e \<Rightarrow> (Some (Raised e), sst\<lparr>line := Some l\<rparr>)
                     | Inr None \<Rightarrow> stream_loop decode E events (sst\<lparr>line := Some l\<rparr>)
                     | Inr (Some content) \<Rightarrow>
                         stream_loop decode E events
                           (sst\<lparr>line := Some l,
                                printed := printed sst @ [Content content]\<rparr>)))))"
  using event_bytes_not_decode_error [of ev] chunk_output_not_decode_error
  by (auto simp: Let_def split: sum.splits option.splits)

lemma delete_schedules_never_not_found:
  "fst (delete_schedules delete_schedule xs st) \<noteq> Some ResourceNotFoundException"
  by (induction xs arbitrary: st) (auto simp: Let_def split: option.splits)

lemma stream_loop_never_decode_error:
  "Inl JSONDecodeError \<notin> set events
     \<Longrightarrow> fst (stream_loop decode E events sst) \<noteq> Some (Raised JSONDecodeError)"
proof (induction events arbitrary: sst)
  case Nil
  show ?case by simp
next
  case (Cons x events)
  show ?case
  proof (cases x)
    case (Inl e)
    with Cons.prems show ?thesis by auto
  next
    case (Inr ev)
    from Cons.prems have rest: "Inl JSONDecodeError \<notin> set events" by simp
    show ?thesis
      unfolding Inr stream_loop_step
      using Cons.IH [OF rest] chunk_output_not_decode_error event_bytes_not_decode_error [of ev]
      by (auto split: sum.splits option.splits)
  qed
qed

text \<open>
  C3, as stated, at the schedule list of the notebook with a scheduler that does not know
  the first schedule: \<open>delete_schedule\<close> raises \<open>ResourceNotFoundException\<close>, and the loop
  ends without an exception, having reported the schedule as not found and deleted the
  other three.
\<close>

theorem cleanup_counterexample:
  "scheduler_without [delete_IC_scale_out_schedule] [] delete_IC_scale_out_schedule
     = Some (ClientException ''ResourceNotFoundException'')
   \<and> delete_schedules (scheduler_without [delete_IC_scale_out_schedule]) schedules
        \<lparr>requested = [], notices = []\<rparr>
     = (None, \<lparr>requested = [''scale-out-schedule-1'', ''scale-to-zero-schedule-1'',
                             ''scale-out-schedule'', ''scale-to-zero-schedule''],
               notices = [Schedule_not_found ''scale-out-schedule-1'',
                          Deleted_schedule ''scale-to-zero-schedule-1'',
                          Deleted_schedule ''scale-out-schedule'',
                          Deleted_schedule ''scale-to-zero-schedule'']\<rparr>)"
  by (simp add: scheduler_without_def schedules_def delete_IC_scale_out_schedule_def
      delete_IC_scale_in_schedule_def update_IC_scale_out_schedule_def
      update_IC_scale_in_schedule_def ResourceNotFoundException_def)

text \<open>
  C3, amended. The clean-up loop catches \<open>ResourceNotFoundException\<close> of
  \<open>delete_schedule\<close>, reports the schedule as not found and goes on with the next one, so
  that exception never leaves the loop; any other exception of \<open>delete_schedule\<close> ends
  the loop and is its outcome, unchanged. In the streaming loop an exception raised by
  the event stream, by reading the bytes of an event, by decoding them or by the
  processing of the chunk is the outcome, unchanged; the one exception caught is
  \<open>JSONDecodeError\<close>, after which the line is reported and the loop goes on, so that
  exception leaves the loop only when the event stream itself raises it.
\<close>

theorem only_listed_exceptions_are_caught:
  "delete_schedules delete_schedule [] st = (None, st)
   \<and> (delete_schedule (requested st) schedule = None
      \<longrightarrow> delete_schedules delete_schedule (schedule # rest) st
          = delete_schedules delete_schedule rest
              (st\<lparr>requested := requested st @ [schedule],
                  notices := notices st @ [Deleted_schedule schedule]\<rparr>))
   \<and> (delete_schedule (requested st) schedule = Some ResourceNotFoundException
      \<longrightarrow> delete_schedules delete_schedule (schedule # rest) st
          = delete_schedules delete_schedule rest
              (st\<lparr>requested := requested st @ [schedule],
                  notices := notices st @ [Schedule_not_found schedule]\<rparr>))
   \<and> (delete_schedule (requested st) schedule = Some e \<and> e \<noteq> ResourceNotFoundException
      \<longrightarrow> delete_schedules delete_schedule (schedule # rest) st
          = (Some e, st\<lparr>requested := requested st @ [schedule]\<rparr>))
   \<and> fst (delete_schedules delete_schedule rest st) \<noteq> Some ResourceNotFoundException
   \<and> stream_loop decode E [] sst = (None, sst)
   \<and> stream_loop decode E (Inl e # events) sst = (Some (Raised e), sst)
   \<and> (event_bytes ev = Inl e
      \<longrightarrow> stream_loop decode E (Inr ev # events) sst = (Some (Raised e), sst))
   \<and> (event_bytes ev = Inr b \<and> decode b = Inl e
      \<longrightarrow> stream_loop decode E (Inr ev # events) sst
          = (if e = JSONDecodeError
             then (case line sst of
                     None \<Rightarrow> (Some NameError, sst)
                   | Some l0 \<Rightarrow> stream_loop decode E events
                                 (sst\<lparr>printed := printed sst @ [Error_decoding_JSON l0]\<rparr>))
             else (Some (Raised e), sst)))
   \<and> (event_bytes ev = Inr b \<and> decode b = Inr l \<and> json_loads E l = Inl e
      \<longrightarrow> stream_loop decode E (Inr ev # events) sst
          = (if e = JSONDecodeError
             then stream_loop decode E events
                    (sst\<lparr>line := Some l, printed := printed sst @ [Error_decoding_JSON l]\<rparr>)
             else (Some (Raised e), sst\<lparr>line := Some l\<rparr>)))
   \<and> (event_bytes ev = Inr b \<and> decode b = Inr l \<and> json_loads E l = Inr chunk
        \<and> chunk_output chunk = Inl e
      \<longrightarrow> stream_loop decode E (Inr ev # events) sst = (Some (Raised e), sst\<lparr>line := Some l\<rparr>))
   \<and> (event_bytes ev = Inr b \<and> decode b = Inr l \<and> json_loads E l = Inr chunk
        \<and> chunk_output chunk = Inr None
      \<longrightarrow> stream_loop decode E (Inr ev # events) sst
          = stream_loop decode E events (sst\<lparr>line := Some l\<rparr>))
   \<and> (event_bytes ev = Inr b \<and> decode b = Inr l \<and> json_loads E l = Inr chunk
        \<and> chunk_output chunk = Inr (Some content)
      \<longrightarrow> stream_loop decode E (Inr ev # events) sst
          = stream_loop decode E events
              (sst\<lparr>line := Some l, printed := printed sst @ [Content content]\<rparr>))
   \<and> (Inl JSONDecodeError \<notin> set events
      \<longrightarrow> fst (stream_loop decode E events sst) \<noteq> Some (Raised JSONDecodeError))"
proof -
  have cleanup: "delete_schedules delete_schedule (schedule # rest) st =
      (case delete_schedule (requested st) schedule of
         None \<Rightarrow> delete_schedules delete_schedule rest
                   (st\<lparr>requested := requested st @ [schedule],
                       notices := notices st @ [Deleted_schedule schedule]\<rparr>)
       | Some e \<Rightarrow>
           if e = ResourceNotFoundException
           then delete_schedules delete_schedule rest
                  (st\<lparr>requested := requested st @ [schedule],
                      notices := notices st @ [Schedule_not_found schedule]\<rparr>)
           else (Some e, st\<lparr>requested := requested st @ [schedule]\<rparr>))"
    by (simp add: Let_def split: option.splits)
  show ?thesis
    unfolding cleanup stream_loop_step
    using delete_schedules_never_not_found [of delete_schedule rest st]
      stream_loop_never_decode_error [of events decode E sst]
    by (intro conjI impI) simp_all
qed

theorem only_listed_exceptions_are_caught_witness:
  "delete_schedules (scheduler_raising (ClientException ''ThrottlingException'')) schedules
     \<lparr>requested = [], notices = []\<rparr>
   = (Some (ClientException ''ThrottlingException''),
      \<lparr>requested = [''scale-out-schedule-1''], notices = []\<rparr>)
   \<and> delete_schedules (scheduler_without [''scale-to-zero-schedule'']) [''scale-to-zero-schedule'']
       \<lparr>requested = [], notices = []\<rparr>
   = (None, \<lparr>requested = [''scale-to-zero-schedule''],
             notices = [Schedule_not_found ''scale-to-zero-schedule'']\<rparr>)
   \<and> stream_loop Inr (example_env [])
       [Inr [(''PayloadPart'', [(''Bytes'', ''not json'')])],
        Inl (ClientException ''ModelStreamError'')]
       \<lparr>line = None, printed = []\<rparr>
   = (Some (Raised (ClientException ''ModelStreamError'')),
      \<lparr>line = Some ''not json'', printed = [Error_decoding_JSON ''not json'']\<rparr>)
   \<and> stream_loop Inr (example_env []) [Inr [(''PayloadPart'', [(''Bytes'', ''number'')])]]
       \<lparr>line = None, printed = []\<rparr>
   = (Some (Raised TypeError), \<lparr>line = Some ''number'', printed = []\<rparr>)
   \<and> stream_loop Inr (example_env []) [Inr [(''InternalStreamFailure'', [])]]
       \<lparr>line = None, printed = []\<rparr>
   = (Some (Raised (KeyError ''PayloadPart'')), \<lparr>line = None, printed = []\<rparr>)
   \<and> stream_loop Inr (example_env []) [Inr [(''PayloadPart'', [(''Bytes'', ''chunk'')])]]
       \<lparr>line = None, printed = []\<rparr>
   = (None, \<lparr>line = Some ''chunk'', printed = [Content (JStr ''Hello'')]\<rparr>)"
proof -
  let ?start = "\<lparr>requested = [], notices = []\<rparr>"
  let ?begin = "\<lparr>line = None, printed = []\<rparr>"
  have other: "delete_schedules (scheduler_raising (ClientException ''ThrottlingException''))
                 schedules ?start
               = (Some (ClientException ''ThrottlingException''),
                  \<lparr>requested = [''scale-out-schedule-1''], notices = []\<rparr>)"
    using only_listed_exceptions_are_caught
      [of "scheduler_raising (ClientException ''ThrottlingException'')" ?start
          "''scale-out-schedule-1''"
          "[''scale-to-zero-schedule-1'', ''scale-out-schedule'', ''scale-to-zero-schedule'']"
          "ClientException ''ThrottlingException''"]
    by (simp add: scheduler_raising_def schedules_def delete_IC_scale_out_schedule_def
        delete_IC_scale_in_schedule_def update_IC_scale_out_schedule_def
        update_IC_scale_in_schedule_def ResourceNotFoundException_def)
  have caught: "delete_schedules (scheduler_without [''scale-to-zero-schedule''])
                  [''scale-to-zero-schedule''] ?start
                = (None, \<lparr>requested = [''scale-to-zero-schedule''],
                          notices = [Schedule_not_found ''scale-to-zero-schedule'']\<rparr>)"
    using only_listed_exceptions_are_caught
      [of "scheduler_without [''scale-to-zero-schedule'']" ?start "''scale-to-zero-schedule''" "[]"]
    by (simp add: scheduler_without_def)
  have stream: "stream_loop Inr (example_env [])
       [Inr [(''PayloadPart'', [(''Bytes'', ''not json'')])],
        Inl (ClientException ''ModelStreamError'')] ?begin
     = (Some (Raised (ClientException ''ModelStreamError'')),
        \<lparr>line = Some ''not json'', printed = [Error_decoding_JSON ''not json'']\<rparr>)"
    using only_listed_exceptions_are_caught
      [of _ _ _ _ JSONDecodeError Inr "example_env []" ?begin
          "[Inl (ClientException ''ModelStreamError'')]"
          "[(''PayloadPart'', [(''Bytes'', ''not json'')])]" "''not json''" "''not json''"]
    by (simp add: event_bytes_def example_env_def scripted_env_def table_loads_def
        example_parsed_def)
  have chunk_error: "stream_loop Inr (example_env [])
       [Inr [(''PayloadPart'', [(''Bytes'', ''number'')])]] ?begin
     = (Some (Raised TypeError), \<lparr>line = Some ''number'', printed = []\<rparr>)"
    using only_listed_exceptions_are_caught
      [of _ _ _ _ TypeError Inr "example_env []" ?begin "[]"
          "[(''PayloadPart'', [(''Bytes'', ''number'')])]" "''number''" "''number''" "JInt 7"]
    by (simp add: event_bytes_def example_env_def scripted_env_def table_loads_def
        example_parsed_def chunk_output_def)
  have event_error: "stream_loop Inr (example_env [])
       [Inr [(''InternalStreamFailure'', [])]] ?begin
     = (Some (Raised (KeyError ''PayloadPart'')), ?begin)"
    using only_listed_exceptions_are_caught
      [of _ _ _ _ "KeyError ''PayloadPart''" Inr "example_env []" ?begin "[]"
          "[(''InternalStreamFailure'', [])]"]
    by (simp add: event_bytes_def)
  have shown: "stream_loop Inr (example_env [])
       [Inr [(''PayloadPart'', [(''Bytes'', ''chunk'')])]] ?begin
     = (None, \<lparr>line = Some ''chunk'', printed = [Content (JStr ''Hello'')]\<rparr>)"
    using only_listed_exceptions_are_caught
      [of _ _ _ _ _ Inr "example_env []" ?begin "[]"
          "[(''PayloadPart'', [(''Bytes'', ''chunk'')])]" "''chunk''" "''chunk''"
          "JDict [(''choices'', JList [JDict [(''delta'', JDict [(''content'', JStr ''Hello'')])]])]"
          "JStr ''Hello''"]
    by (simp add: event_bytes_def example_env_def scripted_env_def table_loads_def
        example_parsed_def chunk_output_def delta_field_def index_def)
  from other caught stream chunk_error event_error shown show ?thesis
    by (intro conjI)
qed

text \<open>
  C4, as stated, at a model that \<open>build()\<close> returned unsharded and isolated: the model
  handed to \<open>deploy\<close> is not the model that was built.
\<close>

theorem model_is_altered_counterexample:
  "deployed (deploy_final_model built_model ''my-endpoint'') \<noteq> built_model
   \<and> deployed (deploy_final_model built_model ''my-endpoint'')
       = \<lparr>is_sharded_model = True, enable_network_isolation = False, image_uri = lmi_image\<rparr>"
  by (simp add: deploy_final_model_def built_model_def select_image_def allow_network_def
      make_sure_sharded_def)

text \<open>
  C4, amended. The resource request and the input of the scheduled creation reach the
  service as they are written. The model does not: whatever \<open>build()\<close> returned, the
  model handed to \<open>deploy\<close> is sharded, not isolated from the network and runs the fixed
  LMI image, and every other attribute is as built.
\<close>

theorem deploy_alters_three_attributes:
  "deployed (deploy_final_model built endpoint)
     = built\<lparr>is_sharded_model := True, enable_network_isolation := False, image_uri := lmi_image\<rparr>
   \<and> to_endpoint (deploy_final_model built endpoint) = endpoint
   \<and> resources (deploy_final_model built endpoint)
       = \<lparr>requests = [(''memory'', 104096), (''num_accelerators'', 4), (''copies'', 1)]\<rparr>
   \<and> Input (scale_out_target E role endpoint component model_name variant)
       = json_dumps E (input_config endpoint component model_name variant)"
  by (simp add: deploy_final_model_def select_image_def allow_network_def
      make_sure_sharded_def resources_required_def scale_out_target_def)

text \<open>
  C8. The Friday schedule deletes the inference component and the Monday schedule
  creates it again from \<open>input_config\<close>, whose capacity is two copies, 1024 MB and one
  accelerator. The component was deployed with one copy, 104096 MB and four accelerators.
  The two capacities differ, so the pair is not a round trip.
\<close>

theorem recreate_differs_from_deployment:
  "recreated_capacity (input_config endpoint component model_name variant)
     = Some \<lparr>copies = 2, memory_mb = 1024, accelerators = 1\<rparr>
   \<and> requested_capacity resources_required
     = Some \<lparr>copies = 1, memory_mb = 104096, accelerators = 4\<rparr>
   \<and> recreated_capacity (input_config endpoint component model_name variant)
     \<noteq> requested_capacity resources_required
   \<and> Arn (scale_in_target E role component)
     = ''arn:aws:scheduler:::aws-sdk:sagemaker:deleteInferenceComponent''
   \<and> Arn (scale_out_target E role endpoint component model_name variant)
     = ''arn:aws:scheduler:::aws-sdk:sagemaker:createInferenceComponent''
   \<and> Input (scale_out_target E role endpoint component model_name variant)
     = json_dumps E (input_config endpoint component model_name variant)"
  by (simp add: recreated_capacity_def requested_capacity_def input_config_def
      resources_required_def int_at_def field_def scale_in_target_def scale_out_target_def)

end
